theory Spec2Isabelle
  imports Complex_Main
begin

section \<open>JavaScript numbers and values\<close>

text \<open>
  The beam analysis is written in JavaScript. Its numbers are modelled in exact arithmetic:
  a finite number is a real, and \<open>NonFinite\<close> stands for a result that is \<open>NaN\<close> or an
  infinity (a division by zero, or arithmetic on \<open>undefined\<close>). The rounding of IEEE
  doubles and the sign of zero are outside the model, so every statement below about a
  computed value is one of exact arithmetic. \<open>NonFinite\<close> absorbs every
  operation: the code never divides by a value that can be infinite, never compares a
  computed value, and \<open>NaN\<close> and the infinities stay non-finite under \<open>+\<close>, \<open>-\<close>, \<open>*\<close>
  and under a division by a finite number.
\<close>

datatype jsnum = Fin real | NonFinite

instantiation jsnum :: "{zero, one, plus, minus, uminus, times, inverse}"
begin

definition zero_jsnum :: jsnum where
  "zero_jsnum = Fin 0"

definition one_jsnum :: jsnum where
  "one_jsnum = Fin 1"

fun plus_jsnum :: "jsnum \<Rightarrow> jsnum \<Rightarrow> jsnum" where
  "plus_jsnum (Fin a) (Fin b) = Fin (a + b)"
| "plus_jsnum _ _ = NonFinite"

fun minus_jsnum :: "jsnum \<Rightarrow> jsnum \<Rightarrow> jsnum" where
  "minus_jsnum (Fin a) (Fin b) = Fin (a - b)"
| "minus_jsnum _ _ = NonFinite"

fun uminus_jsnum :: "jsnum \<Rightarrow> jsnum" where
  "uminus_jsnum (Fin a) = Fin (- a)"
| "uminus_jsnum NonFinite = NonFinite"

fun times_jsnum :: "jsnum \<Rightarrow> jsnum \<Rightarrow> jsnum" where
  "times_jsnum (Fin a) (Fin b) = Fin (a * b)"
| "times_jsnum _ _ = NonFinite"

fun divide_jsnum :: "jsnum \<Rightarrow> jsnum \<Rightarrow> jsnum" where
  "divide_jsnum (Fin a) (Fin b) = (if b = 0 then NonFinite else Fin (a / b))"
| "divide_jsnum _ _ = NonFinite"

definition inverse_jsnum :: "jsnum \<Rightarrow> jsnum" where
  "inverse_jsnum a = divide (Fin 1) a"

instance ..

end

instance jsnum :: semigroup_add
proof
  fix a b c :: jsnum
  show "a + b + c = a + (b + c)"
    by (cases a; cases b; cases c) simp_all
qed

instance jsnum :: numeral ..

instance jsnum :: power ..

text \<open>
  The values a position argument can be, and the values of the properties of a returned
  point. Objects, symbols and big integers as positions are outside the model.
\<close>

datatype jsval = Undefined | Null | Boolean bool | Number jsnum | String string

text \<open>
  \<open>typeof\<close>, and \<open>ToNumber\<close>, the coercion that \<open>>=\<close>, \<open><=\<close>, \<open>*\<close>, \<open>/\<close>, \<open>-\<close> and
  \<open>Math.pow\<close> apply to an operand. On a string it is the host's \<open>StringToNumber\<close>,
  taken as the parameter \<open>sn\<close>.
\<close>

fun typeof :: "jsval \<Rightarrow> string" where
  "typeof Undefined = ''undefined''"
| "typeof Null = ''object''"
| "typeof (Boolean _) = ''boolean''"
| "typeof (Number _) = ''number''"
| "typeof (String _) = ''string''"

fun ToNumber :: "(string \<Rightarrow> jsnum) \<Rightarrow> jsval \<Rightarrow> jsnum" where
  "ToNumber sn Undefined = NonFinite"
| "ToNumber sn Null = Fin 0"
| "ToNumber sn (Boolean v) = Fin (if v then 1 else 0)"
| "ToNumber sn (Number n) = n"
| "ToNumber sn (String s) = sn s"

text \<open>
  What an equation returns: an object literal (its properties in order), an array of
  results, or a primitive value (a string, or \<open>undefined\<close> when the function body ends
  without a \<open>return\<close>).
\<close>

datatype result = Object "(string \<times> jsval) list" | Array "result list" | Primitive jsval

text \<open>
  The guards of the equations compare the position with finite bounds, always both a
  lower and an upper one: \<open>NaN\<close> fails every comparison, \<open>+Infinity\<close> the upper bound and
  \<open>-Infinity\<close> the lower one, so a non-finite position fails each of the three guards, and
  \<open>===\<close> with a finite number as well.
\<close>

definition ge_and_le :: "jsnum \<Rightarrow> real \<Rightarrow> real \<Rightarrow> bool" where
  \<comment> \<open>\<open>x >= lo && x <= hi\<close>\<close>
  "ge_and_le x lo hi = (case x of Fin r \<Rightarrow> lo \<le> r \<and> r \<le> hi | NonFinite \<Rightarrow> False)"

definition gt_and_le :: "jsnum \<Rightarrow> real \<Rightarrow> real \<Rightarrow> bool" where
  \<comment> \<open>\<open>x > lo && x <= hi\<close>\<close>
  "gt_and_le x lo hi = (case x of Fin r \<Rightarrow> lo < r \<and> r \<le> hi | NonFinite \<Rightarrow> False)"

definition gt_and_lt :: "jsnum \<Rightarrow> real \<Rightarrow> real \<Rightarrow> bool" where
  \<comment> \<open>\<open>x > lo && x < hi\<close>\<close>
  "gt_and_lt x lo hi = (case x of Fin r \<Rightarrow> lo < r \<and> r < hi | NonFinite \<Rightarrow> False)"

definition strict_eq :: "jsnum \<Rightarrow> real \<Rightarrow> bool" where
  \<comment> \<open>\<open>x === c\<close>, for a position \<open>x\<close> that is a number\<close>
  "strict_eq x c = (x = Fin c)"

definition parseFloat_toFixed2 :: "jsnum \<Rightarrow> jsnum" where
  \<comment> \<open>\<open>parseFloat(v.toFixed(2))\<close>: \<open>toFixed\<close> picks the integer \<open>n\<close> with \<open>n / 100\<close> nearest
      to \<open>|v|\<close> (the larger one on a tie) and keeps the sign; from \<open>1e21\<close> on it prints
      the number itself\<close>
  "parseFloat_toFixed2 v =
     (case v of
        NonFinite \<Rightarrow> NonFinite
      | Fin r \<Rightarrow>
          if \<bar>r\<bar> \<ge> 10 ^ 21 then Fin r
          else Fin (sgn r * real_of_int \<lfloor>\<bar>r\<bar> * 100 + 1 / 2\<rfloor> / 100))"

section \<open>Beam analysis data types\<close>

record Material =
  name :: string
  properties :: "string \<rightharpoonup> real"

record Beam =
  primarySpan :: real
  secondarySpan :: real
  material :: Material

definition property :: "Material \<Rightarrow> string \<Rightarrow> jsval" where
  \<comment> \<open>\<open>material.properties.EI\<close>: \<open>undefined\<close> when the property is absent\<close>
  "property m k = (case properties m k of None \<Rightarrow> Undefined | Some v \<Rightarrow> Number (Fin v))"

section \<open>The analyzers, first copy of the analysis file\<close>

definition simplySupported1_getDeflectionEquation ::
  "(string \<Rightarrow> jsnum) \<Rightarrow> Beam \<Rightarrow> real \<Rightarrow> jsval \<Rightarrow> result" where
  "simplySupported1_getDeflectionEquation sn b ld xv =
     (let EI = ToNumber sn (property (material b) ''EI'');
          L = Fin (primarySpan b); w = Fin ld; x = ToNumber sn xv
      in if ge_and_le x 0 (primarySpan b) then
           Object [(''x'', xv),
                   (''y'', Number ((w * x * (L ^ 3 - 2 * L * x ^ 2 + x ^ 3)) / (24 * EI)))]
         else Object [(''x'', xv), (''y'', Null)])"

definition simplySupported1_getBendingMomentEquation ::
  "(string \<Rightarrow> jsnum) \<Rightarrow> Beam \<Rightarrow> real \<Rightarrow> jsval \<Rightarrow> result" where
  "simplySupported1_getBendingMomentEquation sn b ld xv =
     (let L = Fin (primarySpan b); w = Fin ld; x = ToNumber sn xv
      in if ge_and_le x 0 (primarySpan b) then
           Object [(''x'', xv), (''y'', Number ((w * x * (L - x)) / 2))]
         else Object [(''x'', xv), (''y'', Null)])"

definition simplySupported1_getShearForceEquation ::
  "(string \<Rightarrow> jsnum) \<Rightarrow> Beam \<Rightarrow> real \<Rightarrow> jsval \<Rightarrow> result" where
  "simplySupported1_getShearForceEquation sn b ld xv =
     (let L = Fin (primarySpan b); w = Fin ld; x = ToNumber sn xv
      in if ge_and_le x 0 (primarySpan b) then
           Object [(''x'', xv), (''y'', Number (w * (L / 2 - x)))]
         else Object [(''x'', xv), (''y'', Null)])"

definition twoSpanUnequal1_getDeflectionEquation ::
  "(string \<Rightarrow> jsnum) \<Rightarrow> Beam \<Rightarrow> real \<Rightarrow> jsval \<Rightarrow> result" where
  "twoSpanUnequal1_getDeflectionEquation sn b ld xv =
     (let EI = ToNumber sn (property (material b) ''EI'');
          L1 = Fin (primarySpan b); L2 = Fin (secondarySpan b); w = Fin ld;
          x = ToNumber sn xv
      in if ge_and_le x 0 (primarySpan b) then
           Object [(''x'', xv),
                   (''y'', Number ((w * x * (L1 ^ 3 - 2 * L1 * x ^ 2 + x ^ 3)) / (24 * EI)))]
         else if gt_and_le x (primarySpan b) (primarySpan b + secondarySpan b) then
           (let x2 = x - L1
            in Object [(''x'', xv),
                       (''y'', Number ((w * x2 * (L2 ^ 3 - 2 * L2 * x2 ^ 2 + x2 ^ 3)) / (24 * EI)))])
         else Object [(''x'', xv), (''y'', Null)])"

definition twoSpanUnequal1_getBendingMomentEquation ::
  "(string \<Rightarrow> jsnum) \<Rightarrow> Beam \<Rightarrow> real \<Rightarrow> jsval \<Rightarrow> result" where
  "twoSpanUnequal1_getBendingMomentEquation sn b ld xv =
     (let L1 = Fin (primarySpan b); L2 = Fin (secondarySpan b); w = Fin ld;
          x = ToNumber sn xv
      in if ge_and_le x 0 (primarySpan b) then
           Object [(''x'', xv), (''y'', Number ((w * x * (L1 - x)) / 2))]
         else if gt_and_le x (primarySpan b) (primarySpan b + secondarySpan b) then
           (let x2 = x - L1
            in Object [(''x'', xv), (''y'', Number ((- (w * x2 * (L2 - x2))) / 2))])
         else Object [(''x'', xv), (''y'', Null)])"

definition twoSpanUnequal1_getShearForceEquation ::
  "(string \<Rightarrow> jsnum) \<Rightarrow> Beam \<Rightarrow> real \<Rightarrow> jsval \<Rightarrow> result" where
  "twoSpanUnequal1_getShearForceEquation sn b ld xv =
     (let L1 = Fin (primarySpan b); L2 = Fin (secondarySpan b); w = Fin ld;
          x = ToNumber sn xv
      in if ge_and_le x 0 (primarySpan b) then
           Object [(''x'', xv), (''y'', Number (w * (L1 / 2 - x)))]
         else if gt_and_le x (primarySpan b) (primarySpan b + secondarySpan b) then
           (let x2 = x - L1
            in Object [(''x'', xv), (''y'', Number (w * (L2 / 2 - x2)))])
         else Object [(''x'', xv), (''y'', Null)])"

section \<open>The analyzers, second copy of the analysis file\<close>

definition simplySupported2_getDeflectionEquation ::
  "(string \<Rightarrow> jsnum) \<Rightarrow> Beam \<Rightarrow> real \<Rightarrow> jsval \<Rightarrow> result" where
  "simplySupported2_getDeflectionEquation sn b ld xv =
     (let j2 = ToNumber sn (property (material b) ''j2'');
          EI = ToNumber sn (property (material b) ''EI'');
          L = Fin (primarySpan b); w = Fin ld; x = ToNumber sn xv
      in if ge_and_le x 0 (primarySpan b) then
           (let deflection =
                  (- ((w * x) / (24 * EI))) * (L ^ 3 - 2 * L * x ^ 2 + x ^ 3) * j2 * 1000;
                simplifiedDeflection = parseFloat_toFixed2 (deflection * 10 ^ 9)
            in Object [(''x'', xv), (''y'', Number simplifiedDeflection)])
         else Object [(''x'', xv), (''deflection'', Null)])"

definition simplySupported2_getBendingMomentEquation ::
  "(string \<Rightarrow> jsnum) \<Rightarrow> Beam \<Rightarrow> real \<Rightarrow> jsval \<Rightarrow> result" where
  "simplySupported2_getBendingMomentEquation sn b ld xv =
     (let L = Fin (primarySpan b); w = Fin ld; x = ToNumber sn xv
      in if ge_and_le x 0 (primarySpan b) then
           Object [(''x'', xv), (''y'', Number (((w * x) / 2) * (L - x)))]
         else Object [(''x'', xv), (''y'', Null)])"

definition simplySupported2_getShearForceEquation ::
  "(string \<Rightarrow> jsnum) \<Rightarrow> Beam \<Rightarrow> real \<Rightarrow> jsval \<Rightarrow> result" where
  "simplySupported2_getShearForceEquation sn b ld xv =
     (let L = Fin (primarySpan b); w = Fin ld; x = ToNumber sn xv
      in if ge_and_le x 0 (primarySpan b) then
           Object [(''x'', xv), (''y'', Number (w * (L / 2 - x)))]
         else Object [(''x'', xv), (''y'', Null)])"

text \<open>
  Each of the three equations of the two-span analyzer starts with the same block, which
  computes the moment \<open>M1\<close> at the interior support and the reactions \<open>R1\<close>, \<open>R3\<close> and
  \<open>R2\<close> from the beam and the load.
\<close>

definition M1 :: "Beam \<Rightarrow> real \<Rightarrow> jsnum" where
  "M1 b ld =
     (let L1 = Fin (primarySpan b); L2 = Fin (secondarySpan b); w = Fin ld
      in - ((w * L1 ^ 3 + w * L1 ^ 3) / (8 * (L1 + L2))))"

definition R1 :: "Beam \<Rightarrow> real \<Rightarrow> jsnum" where
  "R1 b ld =
     (let L1 = Fin (primarySpan b); w = Fin ld; wl1 = w * L1
      in M1 b ld / L1 + wl1 / 2)"

definition R3 :: "Beam \<Rightarrow> real \<Rightarrow> jsnum" where
  "R3 b ld =
     (let L2 = Fin (secondarySpan b); w = Fin ld; wl2 = w * L2
      in M1 b ld / L2 + wl2 / 2)"

definition R2 :: "Beam \<Rightarrow> real \<Rightarrow> jsnum" where
  "R2 b ld =
     (let L1 = Fin (primarySpan b); L2 = Fin (secondarySpan b); w = Fin ld;
          wl1 = w * L1; wl2 = w * L2
      in wl1 + wl2 - R1 b ld - R3 b ld)"

definition twoSpanUnequal2_getDeflectionEquation ::
  "(string \<Rightarrow> jsnum) \<Rightarrow> Beam \<Rightarrow> real \<Rightarrow> jsval \<Rightarrow> result" where
  "twoSpanUnequal2_getDeflectionEquation sn b ld xv =
     (let j2 = ToNumber sn (property (material b) ''j2'');
          EI = ToNumber sn (property (material b) ''EI'');
          L1 = Fin (primarySpan b); w = Fin ld; x = ToNumber sn xv
      in if ge_and_le x 0 (primarySpan b) then
           Object [(''x'', xv),
                   (''y'', Number
                      ((x / (24 * (EI / 1000 ^ 3))) *
                       (4 * R1 b ld * x ^ 2 - w * x ^ 3 + w * L1 ^ 3 - 4 * R1 b ld * L1 ^ 2) *
                       1000 * j2))]
         else if gt_and_le x (primarySpan b) (primarySpan b + secondarySpan b) then
           Object [(''x'', xv),
                   (''y'', Number
                      ((1 / (EI / 1000 ^ 3)) * ((R1 b ld * x) / 6) * (x ^ 2 - L1 ^ 2) +
                       ((R2 b ld * x) / 6) * (x ^ 2 - 3 * L1 * x + 3 * L1 ^ 2) -
                       (R2 b ld * L1 ^ 3) / 6 -
                       ((w * x) / 24) * (x ^ 3 - L1 ^ 3)))]
         else Primitive Undefined)"

definition twoSpanUnequal2_getBendingMomentEquation ::
  "(string \<Rightarrow> jsnum) \<Rightarrow> Beam \<Rightarrow> real \<Rightarrow> jsval \<Rightarrow> result" where
  "twoSpanUnequal2_getBendingMomentEquation sn b ld xv =
     (if typeof xv \<noteq> ''number'' then Primitive (String ''Invalid input: x must be a number.'')
      else
        let L1 = Fin (primarySpan b); L2 = Fin (secondarySpan b); w = Fin ld;
            L = L1 + L2; x = ToNumber sn xv
        in if strict_eq x 0 then Object [(''x'', xv), (''y'', Number 0)]
           else if gt_and_lt x 0 (primarySpan b) then
             Object [(''x'', xv), (''y'', Number (R1 b ld * x - (w * x ^ 2) / 2))]
           else if strict_eq x (primarySpan b) then
             Array [Object [(''x'', xv), (''y'', Number (R1 b ld * L1 - (w * L1 ^ 2) / 2))],
                    Object [(''x'', xv),
                            (''y'', Number (R1 b ld * L1 + R2 b ld * 0 - (w * L1 ^ 2) / 2))]]
           else if gt_and_lt x (primarySpan b) (primarySpan b + secondarySpan b) then
             Object [(''x'', xv),
                     (''y'', Number (R1 b ld * x + R2 b ld * (x - L1) - (w * x ^ 2) / 2))]
           else if strict_eq x (primarySpan b + secondarySpan b) then
             Object [(''x'', xv),
                     (''y'', Number (R1 b ld * L + R2 b ld * (L - L1) - (w * L ^ 2) / 2))]
           else Object [(''x'', xv), (''y'', Null)])"

definition twoSpanUnequal2_getShearForceEquation ::
  "(string \<Rightarrow> jsnum) \<Rightarrow> Beam \<Rightarrow> real \<Rightarrow> jsval \<Rightarrow> result" where
  "twoSpanUnequal2_getShearForceEquation sn b ld xv =
     (if typeof xv \<noteq> ''number'' then Primitive (String ''Invalid input: x must be a number.'')
      else
        let L1 = Fin (primarySpan b); L2 = Fin (secondarySpan b); w = Fin ld;
            totalLength = L1 + L2; x = ToNumber sn xv
        in if strict_eq x 0 then Object [(''x'', xv), (''y'', Number (R1 b ld))]
           else if gt_and_lt x 0 (primarySpan b) then
             Object [(''x'', xv), (''y'', Number (R1 b ld - w * x))]
           else if strict_eq x (primarySpan b) then
             Array [Object [(''x'', xv), (''y'', Number (R1 b ld - w * L1))],
                    Object [(''x'', xv), (''y'', Number (R1 b ld + R2 b ld - w * L1))]]
           else if gt_and_lt x (primarySpan b) (primarySpan b + secondarySpan b) then
             Object [(''x'', xv), (''y'', Number (R1 b ld + R2 b ld - w * x))]
           else if strict_eq x (primarySpan b + secondarySpan b) then
             Object [(''x'', xv), (''y'', Number (R1 b ld + R2 b ld - w * totalLength))]
           else Object [(''x'', xv), (''y'', Null)])"

section \<open>The \<open>BeamAnalysis\<close> class\<close>

text \<open>
  The constructor stores the two analyzers in an object literal, \<open>this.analyzer\<close>, under
  the keys \<open>simply-supported\<close> and \<open>two-span-unequal\<close>. Reading \<open>this.analyzer[condition]\<close>
  finds an own property, or else a member the literal inherits from \<open>Object.prototype\<close>
  (a function or, for \<open>__proto__\<close>, the prototype itself: all of them truthy, none of them
  with the methods of an analyzer), or else \<open>undefined\<close>. Calling a method that a value
  does not have raises a \<open>TypeError\<close>.
\<close>

datatype analyzer = simplySupported | twoSpanUnequal

datatype member = Own analyzer | Inherited | Missing

datatype error = Error string | TypeError

definition Object_prototype_members :: "string list" where
  "Object_prototype_members =
     [''constructor'', ''hasOwnProperty'', ''isPrototypeOf'', ''propertyIsEnumerable'',
      ''toLocaleString'', ''toString'', ''valueOf'', ''__proto__'',
      ''__defineGetter__'', ''__defineSetter__'', ''__lookupGetter__'', ''__lookupSetter__'']"

definition analyzer_member :: "string \<Rightarrow> member" where
  \<comment> \<open>\<open>this.analyzer[condition]\<close>\<close>
  "analyzer_member c =
     (if c = ''simply-supported'' then Own simplySupported
      else if c = ''two-span-unequal'' then Own twoSpanUnequal
      else if c \<in> set Object_prototype_members then Inherited
      else Missing)"

record analysis1 =
  beam :: Beam
  load :: real
  equation :: "jsval \<Rightarrow> result"

record analysis2 = analysis1 +
  condition :: string

fun getDeflectionEquation1 ::
  "analyzer \<Rightarrow> (string \<Rightarrow> jsnum) \<Rightarrow> Beam \<Rightarrow> real \<Rightarrow> jsval \<Rightarrow> result" where
  "getDeflectionEquation1 simplySupported = simplySupported1_getDeflectionEquation"
| "getDeflectionEquation1 twoSpanUnequal = twoSpanUnequal1_getDeflectionEquation"

fun getBendingMomentEquation1 ::
  "analyzer \<Rightarrow> (string \<Rightarrow> jsnum) \<Rightarrow> Beam \<Rightarrow> real \<Rightarrow> jsval \<Rightarrow> result" where
  "getBendingMomentEquation1 simplySupported = simplySupported1_getBendingMomentEquation"
| "getBendingMomentEquation1 twoSpanUnequal = twoSpanUnequal1_getBendingMomentEquation"

fun getShearForceEquation1 ::
  "analyzer \<Rightarrow> (string \<Rightarrow> jsnum) \<Rightarrow> Beam \<Rightarrow> real \<Rightarrow> jsval \<Rightarrow> result" where
  "getShearForceEquation1 simplySupported = simplySupported1_getShearForceEquation"
| "getShearForceEquation1 twoSpanUnequal = twoSpanUnequal1_getShearForceEquation"

fun getDeflectionEquation2 ::
  "analyzer \<Rightarrow> (string \<Rightarrow> jsnum) \<Rightarrow> Beam \<Rightarrow> real \<Rightarrow> jsval \<Rightarrow> result" where
  "getDeflectionEquation2 simplySupported = simplySupported2_getDeflectionEquation"
| "getDeflectionEquation2 twoSpanUnequal = twoSpanUnequal2_getDeflectionEquation"

fun getBendingMomentEquation2 ::
  "analyzer \<Rightarrow> (string \<Rightarrow> jsnum) \<Rightarrow> Beam \<Rightarrow> real \<Rightarrow> jsval \<Rightarrow> result" where
  "getBendingMomentEquation2 simplySupported = simplySupported2_getBendingMomentEquation"
| "getBendingMomentEquation2 twoSpanUnequal = twoSpanUnequal2_getBendingMomentEquation"

fun getShearForceEquation2 ::
  "analyzer \<Rightarrow> (string \<Rightarrow> jsnum) \<Rightarrow> Beam \<Rightarrow> real \<Rightarrow> jsval \<Rightarrow> result" where
  "getShearForceEquation2 simplySupported = simplySupported2_getShearForceEquation"
| "getShearForceEquation2 twoSpanUnequal = twoSpanUnequal2_getShearForceEquation"

text \<open>The first copy of the class: the result has no \<open>condition\<close>.\<close>

definition getDeflection1 ::
  "(string \<Rightarrow> jsnum) \<Rightarrow> Beam \<Rightarrow> real \<Rightarrow> string \<Rightarrow> error + analysis1" where
  "getDeflection1 sn b ld c =
     (case analyzer_member c of
        Own a \<Rightarrow> Inr \<lparr>beam = b, load = ld, equation = getDeflectionEquation1 a sn b ld\<rparr>
      | Inherited \<Rightarrow> Inl TypeError
      | Missing \<Rightarrow> Inl (Error ''Invalid condition''))"

definition getBendingMoment1 ::
  "(string \<Rightarrow> jsnum) \<Rightarrow> Beam \<Rightarrow> real \<Rightarrow> string \<Rightarrow> error + analysis1" where
  "getBendingMoment1 sn b ld c =
     (case analyzer_member c of
        Own a \<Rightarrow> Inr \<lparr>beam = b, load = ld, equation = getBendingMomentEquation1 a sn b ld\<rparr>
      | Inherited \<Rightarrow> Inl TypeError
      | Missing \<Rightarrow> Inl (Error ''Invalid condition''))"

definition getShearForce1 ::
  "(string \<Rightarrow> jsnum) \<Rightarrow> Beam \<Rightarrow> real \<Rightarrow> string \<Rightarrow> error + analysis1" where
  "getShearForce1 sn b ld c =
     (case analyzer_member c of
        Own a \<Rightarrow> Inr \<lparr>beam = b, load = ld, equation = getShearForceEquation1 a sn b ld\<rparr>
      | Inherited \<Rightarrow> Inl TypeError
      | Missing \<Rightarrow> Inl (Error ''Invalid condition''))"

text \<open>The second copy of the class.\<close>

definition getDeflection2 ::
  "(string \<Rightarrow> jsnum) \<Rightarrow> Beam \<Rightarrow> real \<Rightarrow> string \<Rightarrow> error + analysis2" where
  "getDeflection2 sn b ld c =
     (case analyzer_member c of
        Own a \<Rightarrow>
          Inr \<lparr>beam = b, load = ld, equation = getDeflectionEquation2 a sn b ld, condition = c\<rparr>
      | Inherited \<Rightarrow> Inl TypeError
      | Missing \<Rightarrow> Inl (Error ''Invalid condition''))"

definition getBendingMoment2 ::
  "(string \<Rightarrow> jsnum) \<Rightarrow> Beam \<Rightarrow> real \<Rightarrow> string \<Rightarrow> error + analysis2" where
  "getBendingMoment2 sn b ld c =
     (case analyzer_member c of
        Own a \<Rightarrow>
          Inr \<lparr>beam = b, load = ld, equation = getBendingMomentEquation2 a sn b ld,
               condition = c\<rparr>
      | Inherited \<Rightarrow> Inl TypeError
      | Missing \<Rightarrow> Inl (Error ''Invalid condition''))"

definition getShearForce2 ::
  "(string \<Rightarrow> jsnum) \<Rightarrow> Beam \<Rightarrow> real \<Rightarrow> string \<Rightarrow> error + analysis2" where
  "getShearForce2 sn b ld c =
     (case analyzer_member c of
        Own a \<Rightarrow>
          Inr \<lparr>beam = b, load = ld, equation = getShearForceEquation2 a sn b ld, condition = c\<rparr>
      | Inherited \<Rightarrow> Inl TypeError
      | Missing \<Rightarrow> Inl (Error ''Invalid condition''))"

section \<open>Arithmetic on finite numbers\<close>

lemma numeral_jsnum: "(numeral k :: jsnum) = Fin (numeral k)"
  by (induction k) (simp_all only: numeral.simps one_jsnum_def plus_jsnum.simps)

lemma power_jsnum: "Fin a ^ n = Fin (a ^ n)"
  by (induction n) (simp_all add: one_jsnum_def)

lemmas jsnum_arith = numeral_jsnum power_jsnum zero_jsnum_def one_jsnum_def

lemma M1_finite:
  "primarySpan b + secondarySpan b \<noteq> 0 \<Longrightarrow>
   M1 b w = Fin (- ((w * primarySpan b ^ 3 + w * primarySpan b ^ 3) /
                    (8 * (primarySpan b + secondarySpan b))))"
  by (simp add: M1_def jsnum_arith)

lemma R1_finite:
  "primarySpan b + secondarySpan b \<noteq> 0 \<Longrightarrow> primarySpan b \<noteq> 0 \<Longrightarrow>
   R1 b w = Fin (- ((w * primarySpan b ^ 3 + w * primarySpan b ^ 3) /
                    (8 * (primarySpan b + secondarySpan b))) / primarySpan b
                 + w * primarySpan b / 2)"
  by (simp add: R1_def M1_finite jsnum_arith)

lemma R3_finite:
  "primarySpan b + secondarySpan b \<noteq> 0 \<Longrightarrow> secondarySpan b \<noteq> 0 \<Longrightarrow>
   R3 b w = Fin (- ((w * primarySpan b ^ 3 + w * primarySpan b ^ 3) /
                    (8 * (primarySpan b + secondarySpan b))) / secondarySpan b
                 + w * secondarySpan b / 2)"
  by (simp add: R3_def M1_finite jsnum_arith)

lemma reactions_finite:
  assumes "0 < primarySpan b" and "0 < secondarySpan b"
  shows "\<exists>r1 r3. R1 b w = Fin r1 \<and> R3 b w = Fin r3 \<and>
           R2 b w = Fin (w * primarySpan b + w * secondarySpan b - r1 - r3)"
  using assms by (simp add: R2_def R1_finite R3_finite jsnum_arith)

section \<open>The claims\<close>

text \<open>
  C1. In both copies, the bending-moment equation of the simply-supported analyzer returns
  the point \<open>{x, y: w x (L - x) / 2}\<close> at every position \<open>x\<close> with \<open>0 \<le> x \<le> L\<close>, where
  \<open>L\<close> is the primary span. For the beam with primary span 4 and the load 10 it returns
  \<open>{x: 2, y: 20}\<close> at \<open>x = 2\<close>.
\<close>

theorem simplySupported_moment_formula:
  assumes "0 \<le> x" and "x \<le> primarySpan b"
  shows "simplySupported1_getBendingMomentEquation sn b w (Number (Fin x)) =
           Object [(''x'', Number (Fin x)), (''y'', Number (Fin (w * x * (primarySpan b - x) / 2)))]
       \<and> simplySupported2_getBendingMomentEquation sn b w (Number (Fin x)) =
           Object [(''x'', Number (Fin x)), (''y'', Number (Fin (w * x * (primarySpan b - x) / 2)))]"
  using assms
  by (simp add: simplySupported1_getBendingMomentEquation_def
      simplySupported2_getBendingMomentEquation_def ge_and_le_def jsnum_arith)

theorem simplySupported_moment_formula_witness:
  "(0::real) \<le> 2 \<and>
   2 \<le> primarySpan \<lparr>primarySpan = 4, secondarySpan = 0,
                      material = \<lparr>name = ''CLT'', properties = [''EI'' \<mapsto> 1]\<rparr>\<rparr> \<and>
   simplySupported1_getBendingMomentEquation (\<lambda>s. NonFinite)
     \<lparr>primarySpan = 4, secondarySpan = 0,
      material = \<lparr>name = ''CLT'', properties = [''EI'' \<mapsto> 1]\<rparr>\<rparr>
     10 (Number (Fin 2)) = Object [(''x'', Number (Fin 2)), (''y'', Number (Fin 20))] \<and>
   simplySupported2_getBendingMomentEquation (\<lambda>s. NonFinite)
     \<lparr>primarySpan = 4, secondarySpan = 0,
      material = \<lparr>name = ''CLT'', properties = [''EI'' \<mapsto> 1]\<rparr>\<rparr>
     10 (Number (Fin 2)) = Object [(''x'', Number (Fin 2)), (''y'', Number (Fin 20))]"
  using simplySupported_moment_formula [of 2 "\<lparr>primarySpan = 4, secondarySpan = 0,
      material = \<lparr>name = ''CLT'', properties = [''EI'' \<mapsto> 1]\<rparr>\<rparr>" "\<lambda>s. NonFinite" 10]
  by simp

text \<open>
  C2, as amended. For positive spans \<open>L1\<close> and \<open>L2\<close> and a position \<open>x\<close> with
  \<open>L1 < x < L1 + L2\<close>: in the second copy the reactions \<open>R1\<close> and \<open>R2\<close> are finite numbers
  and the bending-moment equation of the two-span analyzer returns the point
  \<open>{x, y: R1 x + R2 (x - L1) - w x\<^sup>2 / 2}\<close>; in the first copy, which computes no
  reactions, it returns the point \<open>{x, y: -(w x2 (L2 - x2)) / 2}\<close> with \<open>x2 = x - L1\<close>.
\<close>

theorem twoSpanUnequal_second_span_moment:
  assumes "0 < primarySpan b" and "0 < secondarySpan b"
    and "primarySpan b < x" and "x < primarySpan b + secondarySpan b"
  shows "(\<exists>r1 r2. R1 b w = Fin r1 \<and> R2 b w = Fin r2 \<and>
           twoSpanUnequal2_getBendingMomentEquation sn b w (Number (Fin x)) =
             Object [(''x'', Number (Fin x)),
                     (''y'', Number (Fin (r1 * x + r2 * (x - primarySpan b) - w * x\<^sup>2 / 2)))])
       \<and> twoSpanUnequal1_getBendingMomentEquation sn b w (Number (Fin x)) =
           Object [(''x'', Number (Fin x)),
                   (''y'', Number (Fin (- (w * (x - primarySpan b) *
                      (secondarySpan b - (x - primarySpan b))) / 2)))]"
proof -
  from reactions_finite [OF assms(1,2)] obtain r1 r3 where r:
    "R1 b w = Fin r1" "R3 b w = Fin r3"
    "R2 b w = Fin (w * primarySpan b + w * secondarySpan b - r1 - r3)" by blast
  from assms have "twoSpanUnequal2_getBendingMomentEquation sn b w (Number (Fin x)) =
      Object [(''x'', Number (Fin x)),
              (''y'', Number (Fin (r1 * x + (w * primarySpan b + w * secondarySpan b - r1 - r3) *
                 (x - primarySpan b) - w * x\<^sup>2 / 2)))]"
    by (simp add: twoSpanUnequal2_getBendingMomentEquation_def strict_eq_def gt_and_lt_def Let_def
        r jsnum_arith)
  with r have second: "\<exists>r1 r2. R1 b w = Fin r1 \<and> R2 b w = Fin r2 \<and>
           twoSpanUnequal2_getBendingMomentEquation sn b w (Number (Fin x)) =
             Object [(''x'', Number (Fin x)),
                     (''y'', Number (Fin (r1 * x + r2 * (x - primarySpan b) - w * x\<^sup>2 / 2)))]"
    by blast
  from assms have first: "twoSpanUnequal1_getBendingMomentEquation sn b w (Number (Fin x)) =
           Object [(''x'', Number (Fin x)),
                   (''y'', Number (Fin (- (w * (x - primarySpan b) *
                      (secondarySpan b - (x - primarySpan b))) / 2)))]"
    by (simp add: twoSpanUnequal1_getBendingMomentEquation_def ge_and_le_def gt_and_le_def
        Let_def jsnum_arith)
  from second first show ?thesis by blast
qed

theorem twoSpanUnequal_second_span_moment_witness:
  "(0::real) < 3 \<and> (0::real) < 2 \<and> (3::real) < 4 \<and> (4::real) < 3 + 2 \<and>
   R1 \<lparr>primarySpan = 3, secondarySpan = 2,
       material = \<lparr>name = ''CLT'', properties = [''EI'' \<mapsto> 1]\<rparr>\<rparr> 5 = Fin (21 / 4) \<and>
   R2 \<lparr>primarySpan = 3, secondarySpan = 2,
       material = \<lparr>name = ''CLT'', properties = [''EI'' \<mapsto> 1]\<rparr>\<rparr> 5 = Fin (145 / 8) \<and>
   twoSpanUnequal2_getBendingMomentEquation (\<lambda>s. NonFinite)
     \<lparr>primarySpan = 3, secondarySpan = 2,
      material = \<lparr>name = ''CLT'', properties = [''EI'' \<mapsto> 1]\<rparr>\<rparr> 5 (Number (Fin 4)) =
     Object [(''x'', Number (Fin 4)), (''y'', Number (Fin (- (7 / 8))))] \<and>
   twoSpanUnequal1_getBendingMomentEquation (\<lambda>s. NonFinite)
     \<lparr>primarySpan = 3, secondarySpan = 2,
      material = \<lparr>name = ''CLT'', properties = [''EI'' \<mapsto> 1]\<rparr>\<rparr> 5 (Number (Fin 4)) =
     Object [(''x'', Number (Fin 4)), (''y'', Number (Fin (- (5 / 2))))]"
proof -
  let ?b = "\<lparr>primarySpan = 3, secondarySpan = 2,
             material = \<lparr>name = ''CLT'', properties = [''EI'' \<mapsto> 1]\<rparr>\<rparr>"
  have r: "R1 ?b 5 = Fin (21 / 4)" "R2 ?b 5 = Fin (145 / 8)"
    by (simp_all add: R2_def R3_def R1_def M1_def jsnum_arith)
  from twoSpanUnequal_second_span_moment [of ?b 4 5 "\<lambda>s. NonFinite"]
  obtain r1 r2 where "R1 ?b 5 = Fin r1" "R2 ?b 5 = Fin r2"
    "twoSpanUnequal2_getBendingMomentEquation (\<lambda>s. NonFinite) ?b 5 (Number (Fin 4)) =
       Object [(''x'', Number (Fin 4)),
               (''y'', Number (Fin (r1 * 4 + r2 * (4 - primarySpan ?b) - 5 * 4\<^sup>2 / 2)))]"
    "twoSpanUnequal1_getBendingMomentEquation (\<lambda>s. NonFinite) ?b 5 (Number (Fin 4)) =
       Object [(''x'', Number (Fin 4)),
               (''y'', Number (Fin (- (5 * (4 - primarySpan ?b) *
                  (secondarySpan ?b - (4 - primarySpan ?b))) / 2)))]"
    by auto
  with r show ?thesis by simp
qed

theorem twoSpanUnequal_second_span_moment_counterexample:
  "twoSpanUnequal1_getBendingMomentEquation (\<lambda>s. NonFinite)
     \<lparr>primarySpan = 3, secondarySpan = 2,
      material = \<lparr>name = ''CLT'', properties = [''EI'' \<mapsto> 1]\<rparr>\<rparr> 5 (Number (Fin 4)) \<noteq>
     Object [(''x'', Number (Fin 4)),
             (''y'', Number
                (R1 \<lparr>primarySpan = 3, secondarySpan = 2,
                     material = \<lparr>name = ''CLT'', properties = [''EI'' \<mapsto> 1]\<rparr>\<rparr> 5 * Fin 4 +
                 R2 \<lparr>primarySpan = 3, secondarySpan = 2,
                     material = \<lparr>name = ''CLT'', properties = [''EI'' \<mapsto> 1]\<rparr>\<rparr> 5 *
                   (Fin 4 - Fin 3) -
                 Fin 5 * Fin 4 ^ 2 / 2))]"
  by (simp add: twoSpanUnequal1_getBendingMomentEquation_def ge_and_le_def gt_and_le_def
      Let_def R2_def R3_def R1_def M1_def jsnum_arith)

text \<open>
  C3. In the second copy, for positive spans \<open>L1\<close> and \<open>L2\<close> the reactions of the two-span
  analyzer are finite numbers in global equilibrium: \<open>R1 + R2 + R3 = w (L1 + L2)\<close>, exactly.
\<close>

theorem reactions_equilibrium:
  assumes "0 < primarySpan b" and "0 < secondarySpan b"
  shows "R1 b w + R2 b w + R3 b w = Fin (w * (primarySpan b + secondarySpan b))"
proof -
  from reactions_finite [OF assms] obtain r1 r3 where
    "R1 b w = Fin r1" "R3 b w = Fin r3"
    "R2 b w = Fin (w * primarySpan b + w * secondarySpan b - r1 - r3)" by blast
  then show ?thesis by (simp add: algebra_simps)
qed

theorem reactions_equilibrium_witness:
  "(0::real) < 3 \<and> (0::real) < 2 \<and>
   R1 \<lparr>primarySpan = 3, secondarySpan = 2,
       material = \<lparr>name = ''CLT'', properties = [''EI'' \<mapsto> 1]\<rparr>\<rparr> 5 +
   R2 \<lparr>primarySpan = 3, secondarySpan = 2,
       material = \<lparr>name = ''CLT'', properties = [''EI'' \<mapsto> 1]\<rparr>\<rparr> 5 +
   R3 \<lparr>primarySpan = 3, secondarySpan = 2,
       material = \<lparr>name = ''CLT'', properties = [''EI'' \<mapsto> 1]\<rparr>\<rparr> 5 = Fin 25"
  using reactions_equilibrium [of "\<lparr>primarySpan = 3, secondarySpan = 2,
      material = \<lparr>name = ''CLT'', properties = [''EI'' \<mapsto> 1]\<rparr>\<rparr>" 5]
  by simp

text \<open>
  C4, as amended. For positive spans, at exactly \<open>x = L1\<close>: in the second copy the
  shear-force equation of the two-span analyzer returns the array of the two points
  \<open>{x, y: R1 - w L1}\<close> and \<open>{x, y: R1 + R2 - w L1}\<close>, in this order, where \<open>R1\<close> and \<open>R2\<close>
  are the finite reactions; in exact arithmetic the second \<open>y\<close> minus the first is \<open>R2\<close>
  (on doubles every operation is rounded, and the difference is \<open>R2\<close> only up to that
  rounding). In the first copy it returns the single point \<open>{x, y: w (L1 / 2 - L1)}\<close>.
\<close>

theorem twoSpanUnequal_support_shear:
  assumes "0 < primarySpan b" and "0 < secondarySpan b"
  shows "(\<exists>r1 r2. R1 b w = Fin r1 \<and> R2 b w = Fin r2 \<and>
           twoSpanUnequal2_getShearForceEquation sn b w (Number (Fin (primarySpan b))) =
             Array [Object [(''x'', Number (Fin (primarySpan b))),
                            (''y'', Number (Fin (r1 - w * primarySpan b)))],
                    Object [(''x'', Number (Fin (primarySpan b))),
                            (''y'', Number (Fin (r1 + r2 - w * primarySpan b)))]])
       \<and> twoSpanUnequal1_getShearForceEquation sn b w (Number (Fin (primarySpan b))) =
           Object [(''x'', Number (Fin (primarySpan b))),
                   (''y'', Number (Fin (w * (primarySpan b / 2 - primarySpan b))))]"
proof -
  from reactions_finite [OF assms] obtain r1 r3 where r:
    "R1 b w = Fin r1" "R3 b w = Fin r3"
    "R2 b w = Fin (w * primarySpan b + w * secondarySpan b - r1 - r3)" by blast
  define r2 where "r2 = w * primarySpan b + w * secondarySpan b - r1 - r3"
  from assms have "twoSpanUnequal2_getShearForceEquation sn b w (Number (Fin (primarySpan b))) =
      Array [Object [(''x'', Number (Fin (primarySpan b))),
                     (''y'', Number (Fin (r1 - w * primarySpan b)))],
             Object [(''x'', Number (Fin (primarySpan b))),
                     (''y'', Number (Fin (r1 + r2 - w * primarySpan b)))]]"
    by (simp add: twoSpanUnequal2_getShearForceEquation_def strict_eq_def gt_and_lt_def Let_def
        r r2_def jsnum_arith)
  moreover have "R2 b w = Fin r2" by (simp add: r r2_def)
  ultimately have second: "\<exists>r1 r2. R1 b w = Fin r1 \<and> R2 b w = Fin r2 \<and>
           twoSpanUnequal2_getShearForceEquation sn b w (Number (Fin (primarySpan b))) =
             Array [Object [(''x'', Number (Fin (primarySpan b))),
                            (''y'', Number (Fin (r1 - w * primarySpan b)))],
                    Object [(''x'', Number (Fin (primarySpan b))),
                            (''y'', Number (Fin (r1 + r2 - w * primarySpan b)))]]"
    using r(1) by blast
  from assms have first:
    "twoSpanUnequal1_getShearForceEquation sn b w (Number (Fin (primarySpan b))) =
           Object [(''x'', Number (Fin (primarySpan b))),
                   (''y'', Number (Fin (w * (primarySpan b / 2 - primarySpan b))))]"
    by (simp add: twoSpanUnequal1_getShearForceEquation_def ge_and_le_def Let_def jsnum_arith)
  from second first show ?thesis by blast
qed

theorem twoSpanUnequal_support_shear_witness:
  "(0::real) < 3 \<and> (0::real) < 2 \<and>
   R1 \<lparr>primarySpan = 3, secondarySpan = 2,
       material = \<lparr>name = ''CLT'', properties = [''EI'' \<mapsto> 1]\<rparr>\<rparr> 5 = Fin (21 / 4) \<and>
   R2 \<lparr>primarySpan = 3, secondarySpan = 2,
       material = \<lparr>name = ''CLT'', properties = [''EI'' \<mapsto> 1]\<rparr>\<rparr> 5 = Fin (145 / 8) \<and>
   twoSpanUnequal2_getShearForceEquation (\<lambda>s. NonFinite)
     \<lparr>primarySpan = 3, secondarySpan = 2,
      material = \<lparr>name = ''CLT'', properties = [''EI'' \<mapsto> 1]\<rparr>\<rparr> 5 (Number (Fin 3)) =
     Array [Object [(''x'', Number (Fin 3)), (''y'', Number (Fin (- (39 / 4))))],
            Object [(''x'', Number (Fin 3)), (''y'', Number (Fin (67 / 8)))]] \<and>
   twoSpanUnequal1_getShearForceEquation (\<lambda>s. NonFinite)
     \<lparr>primarySpan = 3, secondarySpan = 2,
      material = \<lparr>name = ''CLT'', properties = [''EI'' \<mapsto> 1]\<rparr>\<rparr> 5 (Number (Fin 3)) =
     Object [(''x'', Number (Fin 3)), (''y'', Number (Fin (- (15 / 2))))]"
proof -
  let ?b = "\<lparr>primarySpan = 3, secondarySpan = 2,
             material = \<lparr>name = ''CLT'', properties = [''EI'' \<mapsto> 1]\<rparr>\<rparr>"
  have r: "R1 ?b 5 = Fin (21 / 4)" "R2 ?b 5 = Fin (145 / 8)"
    by (simp_all add: R2_def R3_def R1_def M1_def jsnum_arith)
  from twoSpanUnequal_support_shear [of ?b 5 "\<lambda>s. NonFinite"]
  obtain r1 r2 where "R1 ?b 5 = Fin r1" "R2 ?b 5 = Fin r2"
    "twoSpanUnequal2_getShearForceEquation (\<lambda>s. NonFinite) ?b 5 (Number (Fin (primarySpan ?b))) =
       Array [Object [(''x'', Number (Fin (primarySpan ?b))),
                      (''y'', Number (Fin (r1 - 5 * primarySpan ?b)))],
              Object [(''x'', Number (Fin (primarySpan ?b))),
                      (''y'', Number (Fin (r1 + r2 - 5 * primarySpan ?b)))]]"
    "twoSpanUnequal1_getShearForceEquation (\<lambda>s. NonFinite) ?b 5 (Number (Fin (primarySpan ?b))) =
       Object [(''x'', Number (Fin (primarySpan ?b))),
               (''y'', Number (Fin (5 * (primarySpan ?b / 2 - primarySpan ?b))))]"
    by auto
  with r show ?thesis by simp
qed

theorem twoSpanUnequal_support_shear_counterexample:
  "twoSpanUnequal1_getShearForceEquation (\<lambda>s. NonFinite)
     \<lparr>primarySpan = 3, secondarySpan = 2,
      material = \<lparr>name = ''CLT'', properties = [''EI'' \<mapsto> 1]\<rparr>\<rparr> 5 (Number (Fin 3)) =
     Object [(''x'', Number (Fin 3)), (''y'', Number (Fin (- (15 / 2))))]
 \<and> twoSpanUnequal1_getShearForceEquation (\<lambda>s. NonFinite)
     \<lparr>primarySpan = 3, secondarySpan = 2,
      material = \<lparr>name = ''CLT'', properties = [''EI'' \<mapsto> 1]\<rparr>\<rparr> 5 (Number (Fin 3)) \<noteq>
     Array [Object [(''x'', Number (Fin 3)), (''y'', Number (Fin (- (39 / 4))))],
            Object [(''x'', Number (Fin 3)), (''y'', Number (Fin (67 / 8)))]]"
  by (simp add: twoSpanUnequal1_getShearForceEquation_def ge_and_le_def Let_def jsnum_arith)

text \<open>
  C5. The three methods of the \<open>BeamAnalysis\<close> class look the condition up in an object
  literal. A tag that names a member of \<open>Object.prototype\<close>, such as \<open>toString\<close>, is found
  there: the value is truthy, so no invalid-condition error is raised, and the call of the
  analyzer's method on it raises a \<open>TypeError\<close>. This holds in both copies.
\<close>

theorem inherited_condition_raises_TypeError:
  "getDeflection1 sn b w ''toString'' = Inl TypeError
 \<and> getBendingMoment1 sn b w ''toString'' = Inl TypeError
 \<and> getShearForce1 sn b w ''toString'' = Inl TypeError
 \<and> getDeflection2 sn b w ''toString'' = Inl TypeError
 \<and> getBendingMoment2 sn b w ''toString'' = Inl TypeError
 \<and> getShearForce2 sn b w ''toString'' = Inl TypeError"
  by (simp add: getDeflection1_def getBendingMoment1_def getShearForce1_def
      getDeflection2_def getBendingMoment2_def getShearForce2_def
      analyzer_member_def Object_prototype_members_def)

text \<open>
  C6. In the second copy, two deflection equations do not return a point with a null \<open>y\<close>
  outside the domain: the simply-supported one returns \<open>{x, deflection: null}\<close>, which has
  no \<open>y\<close>, and the two-span one returns \<open>undefined\<close>.
\<close>

theorem deflection_out_of_domain:
  "simplySupported2_getDeflectionEquation sn
     \<lparr>primarySpan = 4, secondarySpan = 0, material = m\<rparr> w (Number (Fin 5)) =
     Object [(''x'', Number (Fin 5)), (''deflection'', Null)]
 \<and> twoSpanUnequal2_getDeflectionEquation sn
     \<lparr>primarySpan = 3, secondarySpan = 2, material = m\<rparr> w (Number (Fin 6)) =
     Primitive Undefined"
  by (simp add: simplySupported2_getDeflectionEquation_def
      twoSpanUnequal2_getDeflectionEquation_def ge_and_le_def gt_and_le_def)

text \<open>
  C7. In the second copy, the deflection equation of the two-span analyzer has no check of
  the type of \<open>x\<close>: for \<open>undefined\<close> it returns \<open>undefined\<close>, and for \<open>null\<close>, which counts as
  0, a numeric point; neither is the string that the other two equations return.
\<close>

theorem twoSpanUnequal_deflection_non_numeric:
  "twoSpanUnequal2_getDeflectionEquation sn b w Undefined = Primitive Undefined
 \<and> twoSpanUnequal2_getDeflectionEquation sn
     \<lparr>primarySpan = 3, secondarySpan = 2,
      material = \<lparr>name = n, properties = [''EI'' \<mapsto> 1, ''j2'' \<mapsto> 1]\<rparr>\<rparr> 5 Null =
     Object [(''x'', Null), (''y'', Number (Fin 0))]"
  by (simp add: twoSpanUnequal2_getDeflectionEquation_def ge_and_le_def gt_and_le_def
      property_def R1_def M1_def jsnum_arith)

text \<open>
  C8. In the second copy, for positive spans the bending-moment equation of the two-span
  analyzer returns, at exactly \<open>x = L1\<close>, an array of two points with the same \<open>y\<close>,
  \<open>R1 L1 - w L1\<^sup>2 / 2\<close>.
\<close>

theorem twoSpanUnequal_moment_at_support:
  assumes "0 < primarySpan b" and "0 < secondarySpan b"
  shows "\<exists>r1. R1 b w = Fin r1 \<and>
           twoSpanUnequal2_getBendingMomentEquation sn b w (Number (Fin (primarySpan b))) =
             Array [Object [(''x'', Number (Fin (primarySpan b))),
                            (''y'', Number (Fin (r1 * primarySpan b - w * (primarySpan b)\<^sup>2 / 2)))],
                    Object [(''x'', Number (Fin (primarySpan b))),
                            (''y'', Number (Fin (r1 * primarySpan b - w * (primarySpan b)\<^sup>2 / 2)))]]"
proof -
  from reactions_finite [OF assms] obtain r1 r3 where r:
    "R1 b w = Fin r1" "R3 b w = Fin r3"
    "R2 b w = Fin (w * primarySpan b + w * secondarySpan b - r1 - r3)" by blast
  from assms have "twoSpanUnequal2_getBendingMomentEquation sn b w (Number (Fin (primarySpan b))) =
             Array [Object [(''x'', Number (Fin (primarySpan b))),
                            (''y'', Number (Fin (r1 * primarySpan b - w * (primarySpan b)\<^sup>2 / 2)))],
                    Object [(''x'', Number (Fin (primarySpan b))),
                            (''y'', Number (Fin (r1 * primarySpan b - w * (primarySpan b)\<^sup>2 / 2)))]]"
    by (simp add: twoSpanUnequal2_getBendingMomentEquation_def strict_eq_def gt_and_lt_def Let_def
        r jsnum_arith)
  with r show ?thesis by blast
qed

theorem twoSpanUnequal_moment_at_support_witness:
  "(0::real) < 3 \<and> (0::real) < 2 \<and>
   R1 \<lparr>primarySpan = 3, secondarySpan = 2,
       material = \<lparr>name = ''CLT'', properties = [''EI'' \<mapsto> 1]\<rparr>\<rparr> 5 = Fin (21 / 4) \<and>
   twoSpanUnequal2_getBendingMomentEquation (\<lambda>s. NonFinite)
     \<lparr>primarySpan = 3, secondarySpan = 2,
      material = \<lparr>name = ''CLT'', properties = [''EI'' \<mapsto> 1]\<rparr>\<rparr> 5 (Number (Fin 3)) =
     Array [Object [(''x'', Number (Fin 3)), (''y'', Number (Fin (- (27 / 4))))],
            Object [(''x'', Number (Fin 3)), (''y'', Number (Fin (- (27 / 4))))]]"
proof -
  let ?b = "\<lparr>primarySpan = 3, secondarySpan = 2,
             material = \<lparr>name = ''CLT'', properties = [''EI'' \<mapsto> 1]\<rparr>\<rparr>"
  have r: "R1 ?b 5 = Fin (21 / 4)"
    by (simp add: R1_def M1_def jsnum_arith)
  from twoSpanUnequal_moment_at_support [of ?b 5 "\<lambda>s. NonFinite"]
  obtain r1 where "R1 ?b 5 = Fin r1"
    "twoSpanUnequal2_getBendingMomentEquation (\<lambda>s. NonFinite) ?b 5
       (Number (Fin (primarySpan ?b))) =
       Array [Object [(''x'', Number (Fin (primarySpan ?b))),
                      (''y'', Number (Fin (r1 * primarySpan ?b - 5 * (primarySpan ?b)\<^sup>2 / 2)))],
              Object [(''x'', Number (Fin (primarySpan ?b))),
                      (''y'', Number (Fin (r1 * primarySpan ?b - 5 * (primarySpan ?b)\<^sup>2 / 2)))]]"
    by auto
  with r show ?thesis by simp
qed

text \<open>
  C9. The bending-moment equations of the simply-supported analyzer in the two copies,
  \<open>(w x (L - x)) / 2\<close> and \<open>((w x) / 2) (L - x)\<close>, return the same result for every beam,
  load and position.
\<close>

theorem simplySupported_moment_copies_agree:
  "simplySupported1_getBendingMomentEquation sn b w xv =
   simplySupported2_getBendingMomentEquation sn b w xv"
  by (cases "ToNumber sn xv")
     (simp_all add: simplySupported1_getBendingMomentEquation_def
        simplySupported2_getBendingMomentEquation_def ge_and_le_def Let_def jsnum_arith)

text \<open>
  C10. The equations of the simply-supported analyzer do not read the secondary span: two
  beams with the same primary span and the same material give the same results, for every
  load, kind of equation and position, in both copies.
\<close>

theorem simplySupported_ignores_secondarySpan:
  assumes "primarySpan b1 = primarySpan b2" and "material b1 = material b2"
  shows "simplySupported1_getDeflectionEquation sn b1 w xv =
           simplySupported1_getDeflectionEquation sn b2 w xv
       \<and> simplySupported1_getBendingMomentEquation sn b1 w xv =
           simplySupported1_getBendingMomentEquation sn b2 w xv
       \<and> simplySupported1_getShearForceEquation sn b1 w xv =
           simplySupported1_getShearForceEquation sn b2 w xv
       \<and> simplySupported2_getDeflectionEquation sn b1 w xv =
           simplySupported2_getDeflectionEquation sn b2 w xv
       \<and> simplySupported2_getBendingMomentEquation sn b1 w xv =
           simplySupported2_getBendingMomentEquation sn b2 w xv
       \<and> simplySupported2_getShearForceEquation sn b1 w xv =
           simplySupported2_getShearForceEquation sn b2 w xv"
  using assms
  by (simp add: simplySupported1_getDeflectionEquation_def
      simplySupported1_getBendingMomentEquation_def simplySupported1_getShearForceEquation_def
      simplySupported2_getDeflectionEquation_def
      simplySupported2_getBendingMomentEquation_def simplySupported2_getShearForceEquation_def)

theorem simplySupported_ignores_secondarySpan_witness:
  "primarySpan \<lparr>primarySpan = 4, secondarySpan = 0,
                 material = \<lparr>name = ''CLT'', properties = [''EI'' \<mapsto> 1, ''j2'' \<mapsto> 1]\<rparr>\<rparr> =
   primarySpan \<lparr>primarySpan = 4, secondarySpan = 3,
                 material = \<lparr>name = ''CLT'', properties = [''EI'' \<mapsto> 1, ''j2'' \<mapsto> 1]\<rparr>\<rparr> \<and>
   material \<lparr>primarySpan = 4, secondarySpan = 0,
              material = \<lparr>name = ''CLT'', properties = [''EI'' \<mapsto> 1, ''j2'' \<mapsto> 1]\<rparr>\<rparr> =
   material \<lparr>primarySpan = 4, secondarySpan = 3,
              material = \<lparr>name = ''CLT'', properties = [''EI'' \<mapsto> 1, ''j2'' \<mapsto> 1]\<rparr>\<rparr> \<and>
   simplySupported1_getDeflectionEquation (\<lambda>s. NonFinite)
     \<lparr>primarySpan = 4, secondarySpan = 0,
      material = \<lparr>name = ''CLT'', properties = [''EI'' \<mapsto> 1, ''j2'' \<mapsto> 1]\<rparr>\<rparr> 10 (Number (Fin 1)) =
   simplySupported1_getDeflectionEquation (\<lambda>s. NonFinite)
     \<lparr>primarySpan = 4, secondarySpan = 3,
      material = \<lparr>name = ''CLT'', properties = [''EI'' \<mapsto> 1, ''j2'' \<mapsto> 1]\<rparr>\<rparr> 10 (Number (Fin 1)) \<and>
   simplySupported2_getDeflectionEquation (\<lambda>s. NonFinite)
     \<lparr>primarySpan = 4, secondarySpan = 0,
      material = \<lparr>name = ''CLT'', properties = [''EI'' \<mapsto> 1, ''j2'' \<mapsto> 1]\<rparr>\<rparr> 10 (Number (Fin 1)) =
   simplySupported2_getDeflectionEquation (\<lambda>s. NonFinite)
     \<lparr>primarySpan = 4, secondarySpan = 3,
      material = \<lparr>name = ''CLT'', properties = [''EI'' \<mapsto> 1, ''j2'' \<mapsto> 1]\<rparr>\<rparr> 10 (Number (Fin 1)) \<and>
   simplySupported2_getShearForceEquation (\<lambda>s. NonFinite)
     \<lparr>primarySpan = 4, secondarySpan = 0,
      material = \<lparr>name = ''CLT'', properties = [''EI'' \<mapsto> 1, ''j2'' \<mapsto> 1]\<rparr>\<rparr> 10 (Number (Fin 1)) =
   simplySupported2_getShearForceEquation (\<lambda>s. NonFinite)
     \<lparr>primarySpan = 4, secondarySpan = 3,
      material = \<lparr>name = ''CLT'', properties = [''EI'' \<mapsto> 1, ''j2'' \<mapsto> 1]\<rparr>\<rparr> 10 (Number (Fin 1))"
  using simplySupported_ignores_secondarySpan
    [of "\<lparr>primarySpan = 4, secondarySpan = 0,
          material = \<lparr>name = ''CLT'', properties = [''EI'' \<mapsto> 1, ''j2'' \<mapsto> 1]\<rparr>\<rparr>"
        "\<lparr>primarySpan = 4, secondarySpan = 3,
          material = \<lparr>name = ''CLT'', properties = [''EI'' \<mapsto> 1, ''j2'' \<mapsto> 1]\<rparr>\<rparr>"
        "\<lambda>s. NonFinite" 10 "Number (Fin 1)"]
  by simp

section \<open>Further facts about the code\<close>

text \<open>
  The class with a registered tag and with a tag that is found nowhere, as \<open>unknown\<close>.
\<close>

lemma registered_condition_returns:
  "getDeflection2 sn b w ''simply-supported'' =
     Inr \<lparr>beam = b, load = w, equation = simplySupported2_getDeflectionEquation sn b w,
          condition = ''simply-supported''\<rparr>"
  "getBendingMoment2 sn b w ''simply-supported'' =
     Inr \<lparr>beam = b, load = w, equation = simplySupported2_getBendingMomentEquation sn b w,
          condition = ''simply-supported''\<rparr>"
  "getShearForce2 sn b w ''simply-supported'' =
     Inr \<lparr>beam = b, load = w, equation = simplySupported2_getShearForceEquation sn b w,
          condition = ''simply-supported''\<rparr>"
  "getDeflection2 sn b w ''two-span-unequal'' =
     Inr \<lparr>beam = b, load = w, equation = twoSpanUnequal2_getDeflectionEquation sn b w,
          condition = ''two-span-unequal''\<rparr>"
  "getBendingMoment2 sn b w ''two-span-unequal'' =
     Inr \<lparr>beam = b, load = w, equation = twoSpanUnequal2_getBendingMomentEquation sn b w,
          condition = ''two-span-unequal''\<rparr>"
  "getShearForce2 sn b w ''two-span-unequal'' =
     Inr \<lparr>beam = b, load = w, equation = twoSpanUnequal2_getShearForceEquation sn b w,
          condition = ''two-span-unequal''\<rparr>"
  by (simp_all add: getDeflection2_def getBendingMoment2_def getShearForce2_def
      analyzer_member_def)

lemma unknown_condition_invalid:
  "getDeflection2 sn b w ''unknown'' = Inl (Error ''Invalid condition'')"
  "getBendingMoment2 sn b w ''unknown'' = Inl (Error ''Invalid condition'')"
  "getShearForce2 sn b w ''unknown'' = Inl (Error ''Invalid condition'')"
  by (simp_all add: getDeflection2_def getBendingMoment2_def getShearForce2_def
      analyzer_member_def Object_prototype_members_def)

lemma unregistered_condition_raises:
  assumes "c \<noteq> ''simply-supported''" and "c \<noteq> ''two-span-unequal''"
  shows "getDeflection2 sn b w c =
           Inl (if c \<in> set Object_prototype_members then TypeError else Error ''Invalid condition'')"
    and "getBendingMoment2 sn b w c =
           Inl (if c \<in> set Object_prototype_members then TypeError else Error ''Invalid condition'')"
    and "getShearForce2 sn b w c =
           Inl (if c \<in> set Object_prototype_members then TypeError else Error ''Invalid condition'')"
  using assms
  by (simp_all add: getDeflection2_def getBendingMoment2_def getShearForce2_def
      analyzer_member_def)

lemma getBendingMoment_scenario:
  "map_sum id (\<lambda>r. equation r (Number (Fin 2)))
     (getBendingMoment2 sn \<lparr>primarySpan = 4, secondarySpan = 0,
         material = \<lparr>name = ''CLT'', properties = [''EI'' \<mapsto> 1]\<rparr>\<rparr> 10 ''simply-supported'') =
   Inr (Object [(''x'', Number (Fin 2)), (''y'', Number (Fin 20))])"
  by (simp add: getBendingMoment2_def analyzer_member_def
      simplySupported2_getBendingMomentEquation_def ge_and_le_def jsnum_arith)

text \<open>
  Outside \<open>[0, L1 + L2]\<close> every equation but the two deflection equations of the second
  copy returns the point with a null \<open>y\<close>.
\<close>

lemma out_of_domain_null:
  assumes "0 \<le> primarySpan b" and "0 \<le> secondarySpan b"
    and "x < 0 \<or> primarySpan b + secondarySpan b < x"
  shows "simplySupported1_getDeflectionEquation sn b w (Number (Fin x)) =
           Object [(''x'', Number (Fin x)), (''y'', Null)]"
    and "simplySupported1_getBendingMomentEquation sn b w (Number (Fin x)) =
           Object [(''x'', Number (Fin x)), (''y'', Null)]"
    and "simplySupported1_getShearForceEquation sn b w (Number (Fin x)) =
           Object [(''x'', Number (Fin x)), (''y'', Null)]"
    and "twoSpanUnequal1_getDeflectionEquation sn b w (Number (Fin x)) =
           Object [(''x'', Number (Fin x)), (''y'', Null)]"
    and "twoSpanUnequal1_getBendingMomentEquation sn b w (Number (Fin x)) =
           Object [(''x'', Number (Fin x)), (''y'', Null)]"
    and "twoSpanUnequal1_getShearForceEquation sn b w (Number (Fin x)) =
           Object [(''x'', Number (Fin x)), (''y'', Null)]"
    and "simplySupported2_getBendingMomentEquation sn b w (Number (Fin x)) =
           Object [(''x'', Number (Fin x)), (''y'', Null)]"
    and "simplySupported2_getShearForceEquation sn b w (Number (Fin x)) =
           Object [(''x'', Number (Fin x)), (''y'', Null)]"
    and "twoSpanUnequal2_getBendingMomentEquation sn b w (Number (Fin x)) =
           Object [(''x'', Number (Fin x)), (''y'', Null)]"
    and "twoSpanUnequal2_getShearForceEquation sn b w (Number (Fin x)) =
           Object [(''x'', Number (Fin x)), (''y'', Null)]"
  using assms
  by (auto simp add: simplySupported1_getDeflectionEquation_def
      simplySupported1_getBendingMomentEquation_def simplySupported1_getShearForceEquation_def
      twoSpanUnequal1_getDeflectionEquation_def twoSpanUnequal1_getBendingMomentEquation_def
      twoSpanUnequal1_getShearForceEquation_def
      simplySupported2_getBendingMomentEquation_def simplySupported2_getShearForceEquation_def
      twoSpanUnequal2_getBendingMomentEquation_def twoSpanUnequal2_getShearForceEquation_def
      ge_and_le_def gt_and_le_def gt_and_lt_def strict_eq_def Let_def)

text \<open>
  The bending-moment and shear-force equations of the two-span analyzer of the second copy
  check the type of the position first.
\<close>

lemma twoSpanUnequal_typeof_guard:
  assumes "typeof xv \<noteq> ''number''"
  shows "twoSpanUnequal2_getBendingMomentEquation sn b w xv =
           Primitive (String ''Invalid input: x must be a number.'')"
    and "twoSpanUnequal2_getShearForceEquation sn b w xv =
           Primitive (String ''Invalid input: x must be a number.'')"
  using assms
  by (simp_all add: twoSpanUnequal2_getBendingMomentEquation_def
      twoSpanUnequal2_getShearForceEquation_def)

text \<open>
  The two-span analyzer of the first copy computes no reactions: in the second span its
  bending moment is \<open>-(w x2 (L2 - x2)) / 2\<close> with \<open>x2 = x - L1\<close>, and at \<open>x = L1\<close> its shear
  force and its bending moment are single points.
\<close>

lemma twoSpanUnequal1_second_span:
  assumes "primarySpan b < x" and "x \<le> primarySpan b + secondarySpan b" and "0 \<le> primarySpan b"
  shows "twoSpanUnequal1_getBendingMomentEquation sn b w (Number (Fin x)) =
           Object [(''x'', Number (Fin x)),
                   (''y'', Number (Fin (- (w * (x - primarySpan b) *
                      (secondarySpan b - (x - primarySpan b))) / 2)))]"
  using assms
  by (simp add: twoSpanUnequal1_getBendingMomentEquation_def ge_and_le_def gt_and_le_def
      Let_def jsnum_arith)

lemma twoSpanUnequal1_at_support:
  assumes "0 \<le> primarySpan b"
  shows "twoSpanUnequal1_getShearForceEquation sn b w (Number (Fin (primarySpan b))) =
           Object [(''x'', Number (Fin (primarySpan b))),
                   (''y'', Number (Fin (w * (primarySpan b / 2 - primarySpan b))))]"
    and "twoSpanUnequal1_getBendingMomentEquation sn b w (Number (Fin (primarySpan b))) =
           Object [(''x'', Number (Fin (primarySpan b))), (''y'', Number (Fin 0))]"
  using assms
  by (simp_all add: twoSpanUnequal1_getShearForceEquation_def
      twoSpanUnequal1_getBendingMomentEquation_def ge_and_le_def Let_def jsnum_arith)

end
